theory Spec2Isabelle
  imports Complex_Main "HOL-Library.Sublist"
begin

section \<open>Data exchanged with the chat-completions endpoint\<close>

text \<open>
  The scripts build chat messages as dictionaries with the two keys \<^verbatim>\<open>role\<close> and
  \<^verbatim>\<open>content\<close>. The content of a user message is the caller's string; the content of an
  assistant message is whatever \<^verbatim>\<open>response.choices[0].message.content\<close> holds, which may
  be Python's \<^verbatim>\<open>None\<close>.
\<close>

record message =
  role :: string
  content :: "string option"

text \<open>
  The keyword arguments the scripts pass to \<^verbatim>\<open>client.chat.completions.create\<close>.
  An argument that a call site does not pass is \<open>None\<close>.
\<close>

record request =
  model :: string
  messages :: "message list"
  max_tokens :: "int option"
  stream :: "bool option"

text \<open>A whole response: \<^verbatim>\<open>response.choices[i].message\<close>.\<close>

record choice =
  message :: message

record response =
  choices :: "choice list"

text \<open>A streamed chunk: \<^verbatim>\<open>chunk.choices[i].delta.content\<close>.\<close>

record delta =
  delta_content :: "string option"

record chunk_choice =
  delta :: delta

record chunk =
  chunk_choices :: "chunk_choice list"

text \<open>
  What iterating the object returned by a streaming call does: it yields a chunk and goes
  on, or it is exhausted, or the iteration raises.
\<close>

datatype 'e chunk_iter =
    Yield chunk "'e chunk_iter"
  | StopIteration
  | Raise 'e

text \<open>
  The exceptions the modelled functions can end with: one raised by the endpoint call or
  by the iteration (of the SDK's own type \<open>'e\<close>), or the \<^verbatim>\<open>IndexError\<close> of
  \<^verbatim>\<open>choices[0]\<close> on an empty list.
\<close>

datatype 'e error =
    Remote 'e
  | IndexError

section \<open>Program state\<close>

text \<open>
  The world outside the functions: the requests handed to the endpoint so far (oldest
  first), the endpoint's own state, and what has been printed. The conversation example
  adds its closure variable \<^verbatim>\<open>conversation_history\<close>.
\<close>

record 'w world =
  sent :: "request list"
  remote :: 'w
  stdout :: string

record 'w state = "'w world" +
  conversation_history :: "message list"

type_synonym ('w, 'e) create = "'w \<Rightarrow> request \<Rightarrow> ('e + response) \<times> 'w"

type_synonym ('w, 'e) create_stream = "'w \<Rightarrow> request \<Rightarrow> ('e + 'e chunk_iter) \<times> 'w"

definition print_end :: "string \<Rightarrow> string \<Rightarrow> ('w, 'z) world_scheme \<Rightarrow> ('w, 'z) world_scheme" where
  "print_end s e st = st\<lparr>stdout := stdout st @ s @ e\<rparr>"

definition print :: "string \<Rightarrow> ('w, 'z) world_scheme \<Rightarrow> ('w, 'z) world_scheme" where
  "print s st = print_end s ''\<newline>'' st"

text \<open>How an f-string renders a value that may be \<^verbatim>\<open>None\<close>.\<close>

fun str :: "string option \<Rightarrow> string" where
  "str None = ''None''"
| "str (Some s) = s"

fun error_str :: "('e \<Rightarrow> string) \<Rightarrow> 'e error \<Rightarrow> string" where
  "error_str str_exc (Remote e) = str_exc e"
| "error_str str_exc IndexError = ''list index out of range''"

section \<open>The conversation example\<close>

definition user_turn :: "string \<Rightarrow> message" where
  "user_turn user_message = \<lparr>role = ''user'', content = Some user_message\<rparr>"

definition assistant_turn :: "string option \<Rightarrow> message" where
  "assistant_turn assistant_message = \<lparr>role = ''assistant'', content = assistant_message\<rparr>"

text \<open>
  \<^verbatim>\<open>chat_with_context\<close>: append the user turn, call the endpoint once with the whole
  history, append the assistant turn. An exception of the call, or of \<^verbatim>\<open>choices[0]\<close>,
  leaves the function at that point; nothing catches it.
\<close>

definition chat_request :: "message list \<Rightarrow> request" where
  "chat_request history =
     \<lparr>model = ''gpt-4'', messages = history, max_tokens = Some 150, stream = None\<rparr>"

definition chat_with_context ::
  "('w, 'e) create \<Rightarrow> string \<Rightarrow> 'w state \<Rightarrow> ('e error + string option) \<times> 'w state" where
  "chat_with_context create user_message st =
     (let st1 = st\<lparr>conversation_history := conversation_history st @ [user_turn user_message]\<rparr>;
          req = chat_request (conversation_history st1);
          (r, w) = create (remote st1) req;
          st2 = st1\<lparr>sent := sent st1 @ [req], remote := w\<rparr>
      in case r of
           Inl e \<Rightarrow> (Inl (Remote e), st2)
         | Inr response \<Rightarrow>
             (case choices response of
                [] \<Rightarrow> (Inl IndexError, st2)
              | c # _ \<Rightarrow>
                  (let assistant_message = content (message c)
                   in (Inr assistant_message,
                       st2\<lparr>conversation_history :=
                              conversation_history st2 @ [assistant_turn assistant_message]\<rparr>))))"

text \<open>
  \<^verbatim>\<open>create_conversation_context\<close>: binds a fresh empty history, then holds the two-turn
  example conversation. An exception of either call ends it.
\<close>

definition create_conversation_context ::
  "('w, 'e) create \<Rightarrow> 'w world \<Rightarrow> 'e error option \<times> 'w state" where
  "create_conversation_context create w =
     (let st0 = print ''\<newline>=== CONVERSATION CONTEXT EXAMPLE ===''
                  \<lparr>sent = sent w, remote = remote w, stdout = stdout w,
                   conversation_history = []\<rparr>;
          st1 = print ''User: Hello, I'm learning Python'' st0;
          (r1, st2) = chat_with_context create ''Hello, I'm learning Python'' st1
      in case r1 of
           Inl e \<Rightarrow> (Some e, st2)
         | Inr response1 \<Rightarrow>
             (let st3 = print (''Assistant: '' @ str response1) st2;
                  st4 = print ''User: What should I focus on first?'' st3;
                  (r2, st5) = chat_with_context create ''What should I focus on first?'' st4
              in case r2 of
                   Inl e \<Rightarrow> (Some e, st5)
                 | Inr response2 \<Rightarrow> (None, print (''Assistant: '' @ str response2) st5)))"

text \<open>
  A caller that issues one \<^verbatim>\<open>chat_with_context\<close> call per text of a list, in order, on
  the same history, and goes on after a call that raised. It returns each call's outcome.
\<close>

fun chat_all ::
  "('w, 'e) create \<Rightarrow> string list \<Rightarrow> 'w state \<Rightarrow> ('e error + string option) list \<times> 'w state" where
  "chat_all create [] st = ([], st)"
| "chat_all create (m # ms) st =
     (let (r, st1) = chat_with_context create m st;
          (rs, st2) = chat_all create ms st1
      in (r # rs, st2))"

section \<open>The streaming examples\<close>

text \<open>
  The loop shared by \<^verbatim>\<open>streaming_example\<close> and \<^verbatim>\<open>example_7_streaming\<close>:
  \<^verbatim>\<open>for chunk in stream: if chunk.choices[0].delta.content is not None: print(..., end="")\<close>.
  It returns the exception that ended it, if any.
\<close>

fun print_chunks ::
  "'e chunk_iter \<Rightarrow> ('w, 'z) world_scheme \<Rightarrow> 'e error option \<times> ('w, 'z) world_scheme" where
  "print_chunks StopIteration st = (None, st)"
| "print_chunks (Raise e) st = (Some (Remote e), st)"
| "print_chunks (Yield chunk rest) st =
     (case chunk_choices chunk of
        [] \<Rightarrow> (Some IndexError, st)
      | c # _ \<Rightarrow>
          (case delta_content (delta c) of
             None \<Rightarrow> print_chunks rest st
           | Some s \<Rightarrow> print_chunks rest (print_end s [] st)))"

definition stream_request :: "string \<Rightarrow> request" where
  "stream_request prompt =
     \<lparr>model = ''gpt-4'', messages = [user_turn prompt], max_tokens = None, stream = Some True\<rparr>"

text \<open>
  The handler of \<^verbatim>\<open>streaming_example\<close>, \<^verbatim>\<open>except Exception as e\<close>: it catches the
  exceptions that are instances of \<^verbatim>\<open>Exception\<close> and prints them; any other one
  (\<^verbatim>\<open>KeyboardInterrupt\<close>, \<^verbatim>\<open>SystemExit\<close>) passes through with nothing printed.
  \<open>is_exception\<close> tells which exceptions of the SDK's type are instances of
  \<^verbatim>\<open>Exception\<close>; \<^verbatim>\<open>IndexError\<close> is one.
\<close>

fun caught :: "('e \<Rightarrow> bool) \<Rightarrow> 'e error \<Rightarrow> bool" where
  "caught is_exception (Remote e) = is_exception e"
| "caught is_exception IndexError = True"

definition except_Exception ::
  "('e \<Rightarrow> bool) \<Rightarrow> ('e \<Rightarrow> string) \<Rightarrow> 'e error \<Rightarrow> ('w, 'z) world_scheme
     \<Rightarrow> 'e error option \<times> ('w, 'z) world_scheme" where
  "except_Exception is_exception str_exc e st =
     (if caught is_exception e
      then (None, print (''Error in streaming: '' @ error_str str_exc e) st)
      else (Some e, st))"

text \<open>
  \<^verbatim>\<open>streaming_example\<close> (the complete guide): the call and the loop sit in a
  \<^verbatim>\<open>try\<close> with the handler above. It returns the exception that left it, if any.
\<close>

definition streaming_example ::
  "('e \<Rightarrow> bool) \<Rightarrow> ('e \<Rightarrow> string) \<Rightarrow> ('w, 'e) create_stream \<Rightarrow> ('w, 'z) world_scheme
     \<Rightarrow> 'e error option \<times> ('w, 'z) world_scheme" where
  "streaming_example is_exception str_exc create st =
     (let st0 = print ''\<newline>=== STREAMING EXAMPLE ==='' st;
          req = stream_request ''Write a short poem about coding'';
          (r, w) = create (remote st0) req;
          st1 = st0\<lparr>sent := sent st0 @ [req], remote := w\<rparr>
      in case r of
           Inl e \<Rightarrow> except_Exception is_exception str_exc (Remote e) st1
         | Inr stream_obj \<Rightarrow>
             (let st2 = print ''Streaming response:'' st1;
                  (x, st3) = print_chunks stream_obj st2
              in case x of
                   Some e \<Rightarrow> except_Exception is_exception str_exc e st3
                 | None \<Rightarrow> (None, print ''\<newline>'' st3)))"

text \<open>
  \<^verbatim>\<open>example_7_streaming\<close> (the quick start): the same without a handler, so an
  exception leaves the function.
\<close>

definition example_7_streaming ::
  "('w, 'e) create_stream \<Rightarrow> ('w, 'z) world_scheme \<Rightarrow> 'e error option \<times> ('w, 'z) world_scheme" where
  "example_7_streaming create st =
     (let st0 = print ''\<newline>=== Example 7: Streaming Response ==='' st;
          req = stream_request ''Write a short story about a detective solving a mystery'';
          (r, w) = create (remote st0) req;
          st1 = st0\<lparr>sent := sent st0 @ [req], remote := w\<rparr>
      in case r of
           Inl e \<Rightarrow> (Some (Remote e), st1)
         | Inr stream_obj \<Rightarrow>
             (let st2 = print ''Streaming response:'' st1;
                  (x, st3) = print_chunks stream_obj st2
              in case x of
                   Some e \<Rightarrow> (Some e, st3)
                 | None \<Rightarrow> (None, print ''\<newline>'' st3)))"

text \<open>
  What one call adds to the history, given its outcome: the user turn alone when the call
  raised, the user turn followed by the assistant turn when it returned.
\<close>

definition appended :: "string \<Rightarrow> ('e error + string option) \<Rightarrow> message list" where
  "appended m r = (case r of Inl _ \<Rightarrow> [user_turn m] | Inr a \<Rightarrow> [user_turn m, assistant_turn a])"

section \<open>Streams and chunks used in statements\<close>

text \<open>
  The iteration that yields the chunks of a list and then goes on as a given one; with
  nothing left to go on with, it is exhausted after the last chunk.
\<close>

fun yield_all :: "chunk list \<Rightarrow> 'e chunk_iter \<Rightarrow> 'e chunk_iter" where
  "yield_all [] rest = rest"
| "yield_all (c # cs) rest = Yield c (yield_all cs rest)"

definition of_chunks :: "chunk list \<Rightarrow> 'e chunk_iter" where
  "of_chunks cs = yield_all cs StopIteration"

text \<open>\<^verbatim>\<open>chunk.choices[0].delta.content\<close> of a chunk that has a first choice.\<close>

definition first_content :: "chunk \<Rightarrow> string option" where
  "first_content c = delta_content (delta (hd (chunk_choices c)))"

text \<open>A chunk with one choice, whose delta holds the given content.\<close>

definition fragment :: "string option \<Rightarrow> chunk" where
  "fragment f = \<lparr>chunk_choices = [\<lparr>delta = \<lparr>delta_content = f\<rparr>\<rparr>]\<rparr>"

section \<open>Calling the conversation function with an override\<close>

text \<open>
  The specification's GenerationConfig, every field optional as in an override. The
  scripts have no such value; it is what a caller following the specification would pass
  as second argument.
\<close>

record generation_config =
  cfg_model :: "string option"
  cfg_max_output_tokens :: "int option"
  cfg_temperature :: "real option"
  cfg_top_p :: "real option"
  cfg_stream :: "bool option"

text \<open>
  A call \<^verbatim>\<open>chat_with_context(user_text)\<close> or \<^verbatim>\<open>chat_with_context(user_text, config_override)\<close>.
  The function is defined with the single parameter \<^verbatim>\<open>user_message\<close>, so binding a
  second argument raises \<^verbatim>\<open>TypeError\<close> before the first statement of the body runs.
\<close>

datatype 'e call_error =
    TypeError
  | Raised "'e error"

definition call_chat_with_context ::
  "('w, 'e) create \<Rightarrow> string \<Rightarrow> generation_config option \<Rightarrow> 'w state
     \<Rightarrow> ('e call_error + string option) \<times> 'w state" where
  "call_chat_with_context create user_text config_override st =
     (case config_override of
        Some ov \<Rightarrow> (Inl TypeError, st)
      | None \<Rightarrow>
          (let (r, st1) = chat_with_context create user_text st
           in (case r of Inl e \<Rightarrow> Inl (Raised e) | Inr a \<Rightarrow> Inr a, st1)))"

section \<open>The SDK client behind the endpoint call\<close>

text \<open>
  \<^verbatim>\<open>client = OpenAI()\<close> builds the client with the library's defaults. The method
  \<^verbatim>\<open>client.chat.completions.create\<close> belongs to the library, not to the scripts; what is
  written here is the part of its documented behaviour that the scripts rely on. One call
  of the method performs one exchange with the service and, when the exchange fails with
  an error the library retries (connection errors, timeouts, rate limits, server errors),
  performs it again, up to \<open>max_retries\<close> more times; the library's default, which the
  scripts leave in place, is two. The exchanges are logged in \<open>posts\<close>; the transport
  \<open>post\<close>, the retry count and the test \<open>should_retry\<close> are parameters.
\<close>

record 'n network =
  posts :: "request list"
  net :: 'n

type_synonym ('n, 'e) post = "'n \<Rightarrow> request \<Rightarrow> ('e + response) \<times> 'n"

fun sdk_create ::
  "('e \<Rightarrow> bool) \<Rightarrow> nat \<Rightarrow> ('n, 'e) post \<Rightarrow> 'n network \<Rightarrow> request
     \<Rightarrow> ('e + response) \<times> 'n network" where
  "sdk_create should_retry 0 post w req =
     (let (r, n) = post (net w) req
      in (r, \<lparr>posts = posts w @ [req], net = n\<rparr>))"
| "sdk_create should_retry (Suc max_retries) post w req =
     (let (r, n) = post (net w) req;
          w1 = \<lparr>posts = posts w @ [req], net = n\<rparr>
      in case r of
           Inl e \<Rightarrow>
             (if should_retry e then sdk_create should_retry max_retries post w1 req
              else (Inl e, w1))
         | Inr resp \<Rightarrow> (Inr resp, w1))"

section \<open>Concrete endpoints and states\<close>

text \<open>
  A state in which nothing has happened yet, an endpoint that answers every request with
  one choice, one that can never be reached, a streaming endpoint that delivers three
  chunks (the second without content), and an override that only raises the token cap.
  Then a chunk with no choice at all and a streaming endpoint that delivers it between two
  fragments; and, for the SDK client, a fresh state over a network that counts its
  exchanges, a transport whose first exchange fails and whose later ones answer, and a
  transport whose every exchange fails.
\<close>

definition fresh :: "unit state" where
  "fresh = \<lparr>sent = [], remote = (), stdout = [], conversation_history = []\<rparr>"

definition reply :: "string \<Rightarrow> response" where
  "reply s = \<lparr>choices = [\<lparr>message = assistant_turn (Some s)\<rparr>]\<rparr>"

definition answering :: "(unit, string) create" where
  "answering w req = (Inr (reply ''Hello!''), w)"

definition unreachable :: "(unit, string) create" where
  "unreachable w req = (Inl ''Connection error.'', w)"

definition hello_stream :: "(unit, string) create_stream" where
  "hello_stream w req =
     (Inr (of_chunks [fragment (Some ''Hel''), fragment None, fragment (Some ''lo'')]), w)"

definition longer_answers :: generation_config where
  "longer_answers =
     \<lparr>cfg_model = None, cfg_max_output_tokens = Some 300, cfg_temperature = None,
      cfg_top_p = None, cfg_stream = None\<rparr>"

definition no_choice :: chunk where
  "no_choice = \<lparr>chunk_choices = []\<rparr>"

definition gap_stream :: "(unit, string) create_stream" where
  "gap_stream w req =
     (Inr (of_chunks [fragment (Some ''Hel''), no_choice, fragment (Some ''lo'')]), w)"

definition fresh_net :: "nat network state" where
  "fresh_net =
     \<lparr>sent = [], remote = \<lparr>posts = [], net = 0\<rparr>, stdout = [], conversation_history = []\<rparr>"

definition flaky_post :: "(nat, string) post" where
  "flaky_post n req =
     (if n = 0 then Inl ''Connection error.'' else Inr (reply ''Hello!''), Suc n)"

definition down_post :: "(nat, string) post" where
  "down_post n req = (Inl ''Connection error.'', Suc n)"

section \<open>Facts about one call and about a run of calls\<close>

lemma chat_with_context_sent:
  "sent (snd (chat_with_context create m st)) =
     sent st @ [chat_request (conversation_history st @ [user_turn m])]"
  by (simp add: chat_with_context_def Let_def split: prod.split sum.split list.split)

lemma chat_with_context_result:
  "fst (chat_with_context create m st) =
     (case fst (create (remote st) (chat_request (conversation_history st @ [user_turn m]))) of
        Inl e \<Rightarrow> Inl (Remote e)
      | Inr resp \<Rightarrow>
          (case choices resp of
             [] \<Rightarrow> Inl IndexError
           | c # _ \<Rightarrow> Inr (content (message c))))"
  by (simp add: chat_with_context_def Let_def split: prod.split sum.split list.split)

lemma chat_with_context_history:
  "conversation_history (snd (chat_with_context create m st)) =
     conversation_history st @ appended m (fst (chat_with_context create m st))"
  by (simp add: chat_with_context_def appended_def Let_def split: prod.split sum.split list.split)

lemma chat_with_context_stdout:
  "stdout (snd (chat_with_context create m st)) = stdout st"
  by (simp add: chat_with_context_def Let_def split: prod.split sum.split list.split)

lemma chat_with_context_remote:
  "remote (snd (chat_with_context create m st)) =
     snd (create (remote st) (chat_request (conversation_history st @ [user_turn m])))"
  by (simp add: chat_with_context_def Let_def split: prod.split sum.split list.split)

lemma chat_all_length: "length (fst (chat_all create ms st)) = length ms"
  by (induction ms arbitrary: st) (simp_all add: split_beta Let_def)

lemma chat_all_history:
  "conversation_history (snd (chat_all create ms st)) =
     conversation_history st @ concat (map2 appended ms (fst (chat_all create ms st)))"
  by (induction ms arbitrary: st) (simp_all add: split_beta Let_def chat_with_context_history)

lemma length_appended: "length (appended m r) = (if isl r then 1 else 2)"
  by (cases r) (simp_all add: appended_def)

lemma length_concat_appended:
  "length ms = length rs \<Longrightarrow>
   length (concat (map2 appended ms rs)) =
     2 * length (filter (\<lambda>r. \<not> isl r) rs) + length (filter isl rs)"
  by (induction ms rs rule: list_induct2) (simp_all add: length_appended)

lemma roles_appended:
  "map role (appended m r) = (if isl r then [''user''] else [''user'', ''assistant''])"
  by (cases r) (simp_all add: appended_def user_turn_def assistant_turn_def)

lemma roles_concat_appended:
  "length ms = length rs \<Longrightarrow>
   map role (concat (map2 appended ms rs)) =
     concat (map (\<lambda>r. if isl r then [''user''] else [''user'', ''assistant'']) rs)"
  by (induction ms rs rule: list_induct2) (simp_all add: roles_appended)

lemma chat_with_context_prefix:
  "prefix (conversation_history st) (conversation_history (snd (chat_with_context create m st)))"
  by (simp add: chat_with_context_history)

lemma chat_all_prefix:
  "prefix (conversation_history st) (conversation_history (snd (chat_all create ms st)))"
  by (simp add: chat_all_history)

lemma create_conversation_context_returned:
  "create_conversation_context answering \<lparr>sent = [], remote = (), stdout = []\<rparr> =
     (None,
      \<lparr>sent = [chat_request [user_turn ''Hello, I'm learning Python''],
               chat_request [user_turn ''Hello, I'm learning Python'',
                             assistant_turn (Some ''Hello!''),
                             user_turn ''What should I focus on first?'']],
       remote = (),
       stdout = ''\<newline>=== CONVERSATION CONTEXT EXAMPLE ===\<newline>''
                @ ''User: Hello, I'm learning Python\<newline>Assistant: Hello!\<newline>''
                @ ''User: What should I focus on first?\<newline>Assistant: Hello!\<newline>'',
       conversation_history =
         [user_turn ''Hello, I'm learning Python'', assistant_turn (Some ''Hello!''),
          user_turn ''What should I focus on first?'', assistant_turn (Some ''Hello!'')]\<rparr>)"
  by (simp add: create_conversation_context_def chat_with_context_def answering_def reply_def
        print_def print_end_def Let_def assistant_turn_def)

lemma call_chat_with_context_override:
  "call_chat_with_context create m (Some ov) st = (Inl TypeError, st)"
  by (simp add: call_chat_with_context_def)

lemma call_chat_with_context_plain:
  "snd (call_chat_with_context create m None st) = snd (chat_with_context create m st)"
  by (simp add: call_chat_with_context_def split_beta)

lemma sdk_create_posts:
  "\<exists>k. k \<le> max_retries \<and>
       posts (snd (sdk_create should_retry max_retries post w req)) =
         posts w @ replicate (Suc k) req"
proof (induction max_retries arbitrary: w)
  case 0
  show ?case by (simp add: split_beta)
next
  case (Suc n)
  obtain r m where p: "post (net w) req = (r, m)" by (cases "post (net w) req")
  let ?w1 = "\<lparr>posts = posts w @ [req], net = m\<rparr>"
  show ?case
  proof (cases r)
    case (Inr resp)
    with p have "posts (snd (sdk_create should_retry (Suc n) post w req)) =
                   posts w @ replicate (Suc 0) req"
      by simp
    then show ?thesis by blast
  next
    case (Inl e)
    show ?thesis
    proof (cases "should_retry e")
      case False
      with p Inl have "posts (snd (sdk_create should_retry (Suc n) post w req)) =
                         posts w @ replicate (Suc 0) req"
        by simp
      then show ?thesis by blast
    next
      case True
      from Suc.IH [of ?w1] obtain k where k: "k \<le> n"
        and eq: "posts (snd (sdk_create should_retry n post ?w1 req)) =
                   posts ?w1 @ replicate (Suc k) req"
        by blast
      from p Inl True eq
      have "posts (snd (sdk_create should_retry (Suc n) post w req)) =
              posts w @ replicate (Suc (Suc k)) req"
        by simp
      with k show ?thesis by (metis Suc_le_mono)
    qed
  qed
qed

section \<open>Facts about the streaming loop\<close>

lemma print_chunks_more:
  "world.more (snd (print_chunks s st)) = world.more st"
  by (induction s arbitrary: st) (simp_all add: print_end_def split: list.split option.split)

lemma print_chunks_history:
  "conversation_history (snd (print_chunks s st)) = conversation_history st"
  by (induction s arbitrary: st) (simp_all add: print_end_def split: list.split option.split)

lemma streaming_example_history:
  "conversation_history (snd (streaming_example is_exception str_exc create st)) =
     conversation_history st"
  by (simp add: streaming_example_def except_Exception_def Let_def print_def print_end_def
        split_beta print_chunks_history split: sum.split option.split)

lemma example_7_streaming_history:
  "conversation_history (snd (example_7_streaming create st)) = conversation_history st"
  by (simp add: example_7_streaming_def Let_def print_def print_end_def split_beta
        print_chunks_history split: sum.split option.split)

lemma print_chunks_no_choice:
  "print_chunks (Yield \<lparr>chunk_choices = []\<rparr> rest) st = (Some IndexError, st)"
  by simp

lemma streaming_example_not_caught:
  "create (remote st) (stream_request ''Write a short poem about coding'') = (Inl e, w) \<Longrightarrow>
   \<not> is_exception e \<Longrightarrow>
   streaming_example is_exception str_exc create st =
     (Some (Remote e),
      st\<lparr>sent := sent st @ [stream_request ''Write a short poem about coding''],
         remote := w,
         stdout := stdout st @ ''\<newline>=== STREAMING EXAMPLE ===\<newline>''\<rparr>)"
  by (simp add: streaming_example_def except_Exception_def Let_def print_def print_end_def)

lemma print_chunks_yield_all:
  "\<forall>c \<in> set cs. chunk_choices c \<noteq> [] \<Longrightarrow>
   print_chunks (yield_all cs rest) st =
     print_chunks rest (st\<lparr>stdout := stdout st @ concat (List.map_filter first_content cs)\<rparr>)"
proof (induction cs arbitrary: st)
  case Nil
  then show ?case by simp
next
  case (Cons c cs)
  then obtain x xs where "chunk_choices c = x # xs"
    by (cases "chunk_choices c") auto
  with Cons show ?case
    by (simp add: first_content_def print_end_def split: option.split)
qed

lemma print_chunks_interrupted:
  "\<forall>c \<in> set cs. chunk_choices c \<noteq> [] \<Longrightarrow>
   print_chunks (yield_all cs (Raise e)) st =
     (Some (Remote e), st\<lparr>stdout := stdout st @ concat (List.map_filter first_content cs)\<rparr>)"
  by (simp add: print_chunks_yield_all)

lemma example_7_streaming_of_chunks:
  "create (remote st) (stream_request ''Write a short story about a detective solving a mystery'')
     = (Inr (of_chunks cs), w) \<Longrightarrow>
   \<forall>c \<in> set cs. chunk_choices c \<noteq> [] \<Longrightarrow>
   example_7_streaming create st =
     (None,
      st\<lparr>sent := sent st @ [stream_request ''Write a short story about a detective solving a mystery''],
         remote := w,
         stdout := stdout st @ ''\<newline>=== Example 7: Streaming Response ===\<newline>''
                     @ ''Streaming response:\<newline>''
                     @ concat (List.map_filter first_content cs) @ ''\<newline>\<newline>''\<rparr>)"
  by (simp add: example_7_streaming_def Let_def print_def print_end_def of_chunks_def
        print_chunks_yield_all)

section \<open>Claims\<close>

text \<open>
  C1. After any run of calls on one history, the history is the earlier history followed,
  call by call, by the user turn and (for a call that returned) the assistant turn. Its
  length grows by two for each call that returned and by one for each call that raised,
  and the roles added read user, assistant for a call that returned and user for one that
  raised, in call order.
\<close>

theorem chat_all_history_shape:
  "conversation_history (snd (chat_all create ms st)) =
     conversation_history st @ concat (map2 appended ms (fst (chat_all create ms st)))
   \<and> length (conversation_history (snd (chat_all create ms st))) =
       length (conversation_history st)
       + 2 * length (filter (\<lambda>r. \<not> isl r) (fst (chat_all create ms st)))
       + length (filter isl (fst (chat_all create ms st)))
   \<and> map role (concat (map2 appended ms (fst (chat_all create ms st)))) =
       concat (map (\<lambda>r. if isl r then [''user''] else [''user'', ''assistant''])
                 (fst (chat_all create ms st)))"
proof -
  let ?rs = "fst (chat_all create ms st)"
  have len: "length ms = length ?rs"
    by (simp add: chat_all_length)
  have h: "conversation_history (snd (chat_all create ms st)) =
             conversation_history st @ concat (map2 appended ms ?rs)"
    by (rule chat_all_history)
  have "length (conversation_history (snd (chat_all create ms st))) =
          length (conversation_history st) + length (concat (map2 appended ms ?rs))"
    by (simp only: h length_append)
  with length_concat_appended [OF len] roles_concat_appended [OF len] h
  show ?thesis by simp
qed

text \<open>
  C2, as the code has it. The call checks nothing about its text. Called with the empty
  string it hands the endpoint one request, whose messages are the history followed by a
  user turn with empty content; the history keeps that user turn; and the call raises
  only where the endpoint raised or returned no choice.
\<close>

theorem empty_text_call:
  "sent (snd (chat_with_context create '''' st)) =
     sent st @ [chat_request (conversation_history st @ [user_turn ''''])]
   \<and> prefix (conversation_history st @ [user_turn ''''])
        (conversation_history (snd (chat_with_context create '''' st)))
   \<and> fst (chat_with_context create '''' st) =
       (case fst (create (remote st) (chat_request (conversation_history st @ [user_turn '''']))) of
          Inl e \<Rightarrow> Inl (Remote e)
        | Inr resp \<Rightarrow>
            (case choices resp of
               [] \<Rightarrow> Inl IndexError
             | c # _ \<Rightarrow> Inr (content (message c))))"
  by (simp add: chat_with_context_sent chat_with_context_history chat_with_context_result [symmetric]
        appended_def split: sum.split)

text \<open>
  C2, refuted as stated. On a fresh history, with an endpoint that answers, the call with
  the empty string returns the answer: it does not fail, the history has grown by the two
  turns, and one request has gone to the endpoint.
\<close>

theorem empty_text_is_sent:
  "fst (chat_with_context answering '''' fresh) = Inr (Some ''Hello!'')
   \<and> conversation_history (snd (chat_with_context answering '''' fresh)) =
       [user_turn '''', assistant_turn (Some ''Hello!'')]
   \<and> conversation_history (snd (chat_with_context answering '''' fresh)) \<noteq>
       conversation_history fresh
   \<and> sent (snd (chat_with_context answering '''' fresh)) = [chat_request [user_turn '''']]"
  by (simp add: chat_with_context_def answering_def fresh_def reply_def Let_def assistant_turn_def)

text \<open>
  C3, as the code has it. When the streaming call returns a stream that delivers the
  chunks of a list, each with a first choice, and is then exhausted, the streaming
  example has printed its two headings, the contents of the chunks in arrival order
  (those that are not \<^verbatim>\<open>None\<close>) and a blank line, it has handed the endpoint one
  request, and the history is what it was: no assistant message is added.
\<close>

theorem streaming_example_output:
  fixes st :: "'w state"
  assumes "create (remote st) (stream_request ''Write a short poem about coding'') =
             (Inr (of_chunks cs), w)"
    and "\<forall>c \<in> set cs. chunk_choices c \<noteq> []"
  shows "streaming_example is_exception str_exc create st =
           (None,
            st\<lparr>sent := sent st @ [stream_request ''Write a short poem about coding''],
               remote := w,
               stdout := stdout st @ ''\<newline>=== STREAMING EXAMPLE ===\<newline>''
                           @ ''Streaming response:\<newline>''
                           @ concat (List.map_filter first_content cs) @ ''\<newline>\<newline>''\<rparr>)
       \<and> conversation_history (snd (streaming_example is_exception str_exc create st)) =
           conversation_history st"
  using assms
  by (simp add: streaming_example_def Let_def print_def print_end_def of_chunks_def
        print_chunks_yield_all)

text \<open>The statement above at a stream of three chunks, on a fresh state.\<close>

theorem streaming_example_output_witness:
  "hello_stream (remote fresh) (stream_request ''Write a short poem about coding'') =
     (Inr (of_chunks [fragment (Some ''Hel''), fragment None, fragment (Some ''lo'')]), ())
   \<and> chunk_choices (fragment (Some ''Hel'')) \<noteq> []
   \<and> chunk_choices (fragment None) \<noteq> []
   \<and> chunk_choices (fragment (Some ''lo'')) \<noteq> []
   \<and> streaming_example (\<lambda>e. True) id hello_stream fresh =
       (None,
        fresh\<lparr>sent := [stream_request ''Write a short poem about coding''],
              stdout := ''\<newline>=== STREAMING EXAMPLE ===\<newline>Streaming response:\<newline>Hello\<newline>\<newline>''\<rparr>)
   \<and> conversation_history (snd (streaming_example (\<lambda>e. True) id hello_stream fresh)) =
       conversation_history fresh"
  using streaming_example_output [of hello_stream fresh
      "[fragment (Some ''Hel''), fragment None, fragment (Some ''lo'')]" "()" "\<lambda>e. True" id]
  by (simp add: hello_stream_def fragment_def first_content_def fresh_def)

text \<open>
  C3, refuted as stated. After a stream that delivered \<open>Hel\<close> and \<open>lo\<close> has been
  consumed to its end, the history holds no message at all, so no assistant message with
  the content \<open>Hello\<close>; the text went to standard output only.
\<close>

theorem streaming_appends_nothing:
  "conversation_history (snd (streaming_example (\<lambda>e. True) id hello_stream fresh)) = []
   \<and> assistant_turn (Some ''Hello'') \<notin>
       set (conversation_history (snd (streaming_example (\<lambda>e. True) id hello_stream fresh)))
   \<and> stdout (snd (streaming_example (\<lambda>e. True) id hello_stream fresh)) =
       ''\<newline>=== STREAMING EXAMPLE ===\<newline>Streaming response:\<newline>Hello\<newline>\<newline>''"
  by (simp add: streaming_example_def hello_stream_def fresh_def fragment_def print_def
        print_end_def of_chunks_def Let_def)

text \<open>
  C4, as the code has it. When the call of \<^verbatim>\<open>client.chat.completions.create\<close> made by
  \<^verbatim>\<open>chat_with_context\<close> raises, which is the failure left after the SDK client's own
  retries, the function ends with that exception, the history is the earlier history
  followed by the user turn alone, and the method has been called exactly once: the
  function adds no retry of its own.
\<close>

theorem failed_call_keeps_user_turn:
  assumes "fst (create (remote st) (chat_request (conversation_history st @ [user_turn m]))) = Inl e"
  shows "fst (chat_with_context create m st) = Inl (Remote e)
       \<and> conversation_history (snd (chat_with_context create m st)) =
           conversation_history st @ [user_turn m]
       \<and> sent (snd (chat_with_context create m st)) =
           sent st @ [chat_request (conversation_history st @ [user_turn m])]"
  using assms
  by (simp add: chat_with_context_result chat_with_context_history chat_with_context_sent
        appended_def)

text \<open>The statement above for an endpoint that cannot be reached, on a fresh state.\<close>

theorem failed_call_keeps_user_turn_witness:
  "fst (unreachable (remote fresh) (chat_request (conversation_history fresh @ [user_turn ''X''])))
     = Inl ''Connection error.''
   \<and> fst (chat_with_context unreachable ''X'' fresh) = Inl (Remote ''Connection error.'')
   \<and> conversation_history (snd (chat_with_context unreachable ''X'' fresh)) = [user_turn ''X'']
   \<and> sent (snd (chat_with_context unreachable ''X'' fresh)) = [chat_request [user_turn ''X'']]"
  using failed_call_keeps_user_turn [of unreachable fresh "''X''" "''Connection error.''"]
  by (simp add: unreachable_def fresh_def)

text \<open>
  C4, refuted as stated. With the client's two default retries and a transport whose
  first exchange fails, one call returns the answer of the second exchange: the failed
  exchange is repeated silently, nothing surfaces to the caller and the assistant turn is
  appended. With a transport whose every exchange fails, one call performs three
  exchanges before the failure surfaces.
\<close>

theorem failed_exchange_is_retried:
  "fst (chat_with_context (sdk_create (\<lambda>e. True) 2 flaky_post) ''X'' fresh_net) =
     Inr (Some ''Hello!'')
   \<and> conversation_history (snd (chat_with_context (sdk_create (\<lambda>e. True) 2 flaky_post) ''X'' fresh_net)) =
       [user_turn ''X'', assistant_turn (Some ''Hello!'')]
   \<and> posts (remote (snd (chat_with_context (sdk_create (\<lambda>e. True) 2 flaky_post) ''X'' fresh_net))) =
       [chat_request [user_turn ''X''], chat_request [user_turn ''X'']]
   \<and> fst (chat_with_context (sdk_create (\<lambda>e. True) 2 down_post) ''X'' fresh_net) =
       Inl (Remote ''Connection error.'')
   \<and> posts (remote (snd (chat_with_context (sdk_create (\<lambda>e. True) 2 down_post) ''X'' fresh_net))) =
       [chat_request [user_turn ''X''], chat_request [user_turn ''X''],
        chat_request [user_turn ''X'']]"
  by (simp add: chat_with_context_def numeral_2_eq_2 flaky_post_def down_post_def fresh_net_def
        reply_def assistant_turn_def Let_def)

text \<open>
  C5, as the code has it. Every call hands the endpoint exactly one request. Its messages
  are the whole history, the earlier messages in order followed by the new user turn; its
  parameters are fixed: model \<open>gpt-4\<close>, at most 150 tokens, no stream flag. The call
  takes no override: called with the text alone it does the same, and called with an
  override as well it raises \<^verbatim>\<open>TypeError\<close> and leaves the state as it was.
\<close>

theorem request_carries_whole_history:
  "sent (snd (chat_with_context create m st)) =
     sent st @ [\<lparr>model = ''gpt-4'', messages = conversation_history st @ [user_turn m],
                max_tokens = Some 150, stream = None\<rparr>]
   \<and> sent (snd (call_chat_with_context create m None st)) =
       sent st @ [\<lparr>model = ''gpt-4'', messages = conversation_history st @ [user_turn m],
                  max_tokens = Some 150, stream = None\<rparr>]
   \<and> call_chat_with_context create m (Some ov) st = (Inl TypeError, st)"
  by (simp add: chat_with_context_sent chat_request_def call_chat_with_context_override
        call_chat_with_context_plain)

text \<open>
  C5, refuted as stated. A call that passes the text \<open>Hi\<close> and an override raising the
  token cap to 300, on a fresh state with an endpoint that answers, raises
  \<^verbatim>\<open>TypeError\<close>: no request reaches the endpoint, so none that carries the history or
  any resolved parameters, and the history stays empty.
\<close>

theorem override_is_a_type_error:
  "call_chat_with_context answering ''Hi'' (Some longer_answers) fresh = (Inl TypeError, fresh)
   \<and> sent (snd (call_chat_with_context answering ''Hi'' (Some longer_answers) fresh)) = []
   \<and> conversation_history (snd (call_chat_with_context answering ''Hi'' (Some longer_answers) fresh)) = []"
  by (simp add: call_chat_with_context_def fresh_def)

text \<open>
  C6. The history before a call is a prefix of the history after it, and so it is over
  any run of calls; the two streaming examples leave the history as it is.
\<close>

theorem history_only_grows:
  "prefix (conversation_history st) (conversation_history (snd (chat_with_context create m st)))
   \<and> prefix (conversation_history st) (conversation_history (snd (chat_all create ms st)))
   \<and> conversation_history (snd (streaming_example is_exception str_exc cs st)) =
       conversation_history st
   \<and> conversation_history (snd (example_7_streaming cs st)) = conversation_history st"
  by (simp add: chat_with_context_prefix chat_all_prefix streaming_example_history
        example_7_streaming_history)

text \<open>
  C10, as the code has it. For a stream that delivers the chunks of a list, each with a first choice, and is
  then exhausted, the loop ends without an exception and has printed exactly the contents
  that are not \<^verbatim>\<open>None\<close>, concatenated in arrival order; a chunk whose content is
  \<^verbatim>\<open>None\<close> prints nothing.
\<close>

theorem print_chunks_output:
  assumes "\<forall>c \<in> set cs. chunk_choices c \<noteq> []"
  shows "print_chunks (of_chunks cs) st =
     (None, st\<lparr>stdout := stdout st @ concat (List.map_filter first_content cs)\<rparr>)"
  using assms by (simp add: of_chunks_def print_chunks_yield_all)

text \<open>The statement above at three chunks, the second without content.\<close>

theorem print_chunks_output_witness:
  "chunk_choices (fragment (Some ''Hel'')) \<noteq> []
   \<and> chunk_choices (fragment None) \<noteq> []
   \<and> chunk_choices (fragment (Some ''lo'')) \<noteq> []
   \<and> print_chunks (of_chunks [fragment (Some ''Hel''), fragment None, fragment (Some ''lo'')]) fresh =
       (None, fresh\<lparr>stdout := ''Hello''\<rparr>)"
  using print_chunks_output [of "[fragment (Some ''Hel''), fragment None, fragment (Some ''lo'')]" fresh]
  by (simp add: fragment_def first_content_def fresh_def)

text \<open>
  C10, refuted as stated. On the stream \<open>Hel\<close>, a chunk with no choice, \<open>lo\<close>, the loop
  stops at the second chunk with \<^verbatim>\<open>IndexError\<close>: it has printed \<open>Hel\<close> only, not
  the concatenation \<open>Hello\<close> of the contents that are not \<^verbatim>\<open>None\<close>, and
  \<^verbatim>\<open>streaming_example\<close> prints the error after it.
\<close>

theorem chunk_without_choice_stops_output:
  "print_chunks (of_chunks [fragment (Some ''Hel''), no_choice, fragment (Some ''lo'')]) fresh =
     (Some IndexError, fresh\<lparr>stdout := ''Hel''\<rparr>)
   \<and> stdout (snd (print_chunks
        (of_chunks [fragment (Some ''Hel''), no_choice, fragment (Some ''lo'')]) fresh)) \<noteq> ''Hello''
   \<and> stdout (snd (streaming_example (\<lambda>e. True) id gap_stream fresh)) =
       ''\<newline>=== STREAMING EXAMPLE ===\<newline>Streaming response:\<newline>''
       @ ''HelError in streaming: list index out of range\<newline>''"
  by (simp add: streaming_example_def except_Exception_def gap_stream_def of_chunks_def
        fragment_def no_choice_def fresh_def print_def print_end_def Let_def)

end
